theory Spec2Isabelle
  imports Main "HOL-Library.Multiset"
begin

section \<open>Values shared by every component\<close>

text \<open>
  Values that the TypeScript code throws. \<open>GenericAxiosError\<close> and
  \<open>UnexpectedResponseContentType\<close> are the two failure classes built in
  \<^verbatim>\<open>network-helper\<close>; \<open>Error\<close> is \<^verbatim>\<open>new Error(msg)\<close>; \<open>TypeError\<close> is what the
  engine raises when a property of \<^verbatim>\<open>null\<close> or \<^verbatim>\<open>undefined\<close> is read (the string
  names the expression that was read, it is not the engine's message).
\<close>

datatype error =
    GenericAxiosError string
  | UnexpectedResponseContentType string
  | Error string
  | TypeError string

text \<open>
  \<^verbatim>\<open>Result<E, T>\<close> as the code uses it: built by \<^verbatim>\<open>failure(e)\<close> and \<^verbatim>\<open>success(v)\<close>,
  inspected by \<^verbatim>\<open>isSuccess()\<close> / \<^verbatim>\<open>isFailure()\<close>, read through \<^verbatim>\<open>.value\<close>.
\<close>

datatype ('e, 't) result = Failure 'e | Success 't

fun isSuccess :: "('e, 't) result \<Rightarrow> bool" where
  "isSuccess (Success v) = True"
| "isSuccess (Failure e) = False"

fun isFailure :: "('e, 't) result \<Rightarrow> bool" where
  "isFailure (Failure e) = True"
| "isFailure (Success v) = False"

text \<open>
  How a call ends: it returns a value, or a \<^verbatim>\<open>throw\<close> unwinds it (for an
  \<^verbatim>\<open>async\<close> function: the promise is fulfilled, or it is rejected).
\<close>

datatype 'a outcome = Returns 'a | Throws error

fun isThrown :: "'a outcome \<Rightarrow> bool" where
  "isThrown (Throws e) = True"
| "isThrown (Returns v) = False"

subsection \<open>Numbers and strings\<close>

text \<open>\<^verbatim>\<open>Number.prototype.toString()\<close> on an integer: its decimal digits.\<close>

definition digit :: "nat \<Rightarrow> char" where
  "digit n = ''0123456789'' ! (n mod 10)"

fun show_nat :: "nat \<Rightarrow> string" where
  "show_nat n = (if n < 10 then [digit n] else show_nat (n div 10) @ [digit n])"

declare show_nat.simps [simp del]

definition show_int :: "int \<Rightarrow> string" where
  "show_int i = (if i < 0 then CHR ''-'' # show_nat (nat (- i)) else show_nat (nat i))"

text \<open>\<^verbatim>\<open>String.prototype.includes\<close>: the argument occurs as a contiguous substring.\<close>

fun startsWith :: "string \<Rightarrow> string \<Rightarrow> bool" where
  "startsWith s [] = True"
| "startsWith [] (c # cs) = False"
| "startsWith (d # ds) (c # cs) = (d = c \<and> startsWith ds cs)"

fun includes_str :: "string \<Rightarrow> string \<Rightarrow> bool" where
  "includes_str [] sub = (sub = [])"
| "includes_str (c # cs) sub = (startsWith (c # cs) sub \<or> includes_str cs sub)"

text \<open>
  \<^verbatim>\<open>String.prototype.trim\<close>: white space and line terminators are removed at both
  ends (the ASCII ones; strings are byte lists here).
\<close>

definition isWhiteSpace :: "char \<Rightarrow> bool" where
  "isWhiteSpace c = (c \<in> set [CHR '' '', CHR 0x09, CHR 0x0A, CHR 0x0B, CHR 0x0C, CHR 0x0D])"

definition trim :: "string \<Rightarrow> string" where
  "trim s = rev (dropWhile isWhiteSpace (rev (dropWhile isWhiteSpace s)))"

section \<open>Query variants (\<^verbatim>\<open>search-query.ts\<close>)\<close>

subsection \<open>\<^verbatim>\<open>URL\<close> and \<^verbatim>\<open>URLSearchParams\<close>\<close>

text \<open>
  A URL is kept as the part before the query string and the ordered list of query
  parameters. \<^verbatim>\<open>append\<close> adds a pair at the end; \<^verbatim>\<open>set\<close> overwrites the first pair
  with that name and drops the others, or appends when there is none.
\<close>

record url =
  origin_path :: string
  searchParams :: "(string \<times> string) list"

fun set_first :: "string \<Rightarrow> string \<Rightarrow> (string \<times> string) list \<Rightarrow> (string \<times> string) list" where
  "set_first k v [] = []"
| "set_first k v ((k', v') # ps) =
     (if k' = k then (k, v) # filter (\<lambda>p. fst p \<noteq> k) ps else (k', v') # set_first k v ps)"

definition params_set :: "string \<Rightarrow> string \<Rightarrow> url \<Rightarrow> url" where
  "params_set k v u =
     (if k \<in> set (map fst (searchParams u))
      then u\<lparr>searchParams := set_first k v (searchParams u)\<rparr>
      else u\<lparr>searchParams := searchParams u @ [(k, v)]\<rparr>)"

definition params_append :: "string \<Rightarrow> string \<Rightarrow> url \<Rightarrow> url" where
  "params_append k v u = u\<lparr>searchParams := searchParams u @ [(k, v)]\<rparr>"

subsection \<open>\<^verbatim>\<open>SearchQuery\<close>: the latest-listing query\<close>

record SearchQuery =
  sq_category :: string
  sq_tags :: "int list"
  sq_prefixes :: "int list"
  sq_sort :: string
  sq_date :: "int option"
  sq_page :: int

definition MAX_TAGS :: nat where "MAX_TAGS = 5"
definition MIN_PAGE :: int where "MIN_PAGE = 1"
definition VALID_CATEGORY :: "string list" where
  "VALID_CATEGORY = [''games'', ''comics'', ''animations'', ''assets'']"
definition VALID_SORT :: "string list" where
  "VALID_SORT = [''date'', ''likes'', ''views'', ''title'', ''rating'']"
definition VALID_DATE :: "int option list" where
  "VALID_DATE = [Some 365, Some 180, Some 90, Some 30, Some 14, Some 7, Some 3, Some 1, None]"

text \<open>The field initialisers of the class.\<close>

definition SearchQuery_new :: SearchQuery where
  "SearchQuery_new =
     \<lparr>sq_category = ''games'', sq_tags = [], sq_prefixes = [], sq_sort = ''date'', sq_date = None,
       sq_page = MIN_PAGE\<rparr>"

text \<open>
  The decorators do not receive these constants. The five names are instance
  fields, written by the constructor, while each decorator argument is read off
  \<^verbatim>\<open>SearchQuery.prototype\<close> when the class is defined: there the property does not
  exist and the argument is \<^verbatim>\<open>undefined\<close> (\<open>None\<close>).
\<close>

definition prototype_MAX_TAGS :: "nat option" where "prototype_MAX_TAGS = None"
definition prototype_MIN_PAGE :: "int option" where "prototype_MIN_PAGE = None"
definition prototype_VALID_CATEGORY :: "string list option" where "prototype_VALID_CATEGORY = None"
definition prototype_VALID_SORT :: "string list option" where "prototype_VALID_SORT = None"
definition prototype_VALID_DATE :: "int option list option" where "prototype_VALID_DATE = None"

text \<open>
  The checks of \<^verbatim>\<open>class-validator\<close> behind the decorators, on an argument that may be
  \<^verbatim>\<open>undefined\<close>: \<^verbatim>\<open>isIn\<close> is \<^verbatim>\<open>!Array.isArray(values) || values.some(v => v === value)\<close>,
  \<^verbatim>\<open>arrayMaxSize\<close> is \<^verbatim>\<open>Array.isArray(array) && array.length <= max\<close>, and \<^verbatim>\<open>min\<close> is
  \<^verbatim>\<open>typeof num === "number" && typeof min === "number" && num >= min\<close>. A comparison
  with \<^verbatim>\<open>undefined\<close> is false.
\<close>

definition isIn :: "'a \<Rightarrow> 'a list option \<Rightarrow> bool" where
  "isIn v possibleValues = (case possibleValues of None \<Rightarrow> True | Some vs \<Rightarrow> v \<in> set vs)"

definition arrayMaxSize :: "'a list \<Rightarrow> nat option \<Rightarrow> bool" where
  "arrayMaxSize array m = (case m of None \<Rightarrow> False | Some n \<Rightarrow> length array \<le> n)"

definition min_value :: "int \<Rightarrow> int option \<Rightarrow> bool" where
  "min_value num m = (case m of None \<Rightarrow> False | Some n \<Rightarrow> n \<le> num)"

text \<open>
  \<^verbatim>\<open>validate()\<close> is \<^verbatim>\<open>validateSync(this).length === 0\<close>: every decorator of the class
  holds. The decorators are \<^verbatim>\<open>IsIn\<close> on the category, \<^verbatim>\<open>IsArray\<close> and \<^verbatim>\<open>ArrayMaxSize\<close>
  on the tags, \<^verbatim>\<open>IsArray\<close> on the prefixes, \<^verbatim>\<open>IsIn\<close> on the sort and on the date, and
  \<^verbatim>\<open>IsInt\<close> with \<^verbatim>\<open>Min\<close> on the page; \<^verbatim>\<open>IsArray\<close> and \<^verbatim>\<open>IsInt\<close> hold by the types of
  the record.
\<close>

definition SearchQuery_validate :: "SearchQuery \<Rightarrow> bool" where
  "SearchQuery_validate q =
     (isIn (sq_category q) prototype_VALID_CATEGORY \<and>
      arrayMaxSize (sq_tags q) prototype_MAX_TAGS \<and>
      isIn (sq_sort q) prototype_VALID_SORT \<and>
      isIn (sq_date q) prototype_VALID_DATE \<and>
      min_value (sq_page q) prototype_MIN_PAGE)"

text \<open>
  What the doc comments of the fields and the names of the constants say a valid
  query is: the constraints as they would be with the constants in place.
\<close>

definition documented_constraints :: "SearchQuery \<Rightarrow> bool" where
  "documented_constraints q =
     (isIn (sq_category q) (Some VALID_CATEGORY) \<and>
      arrayMaxSize (sq_tags q) (Some MAX_TAGS) \<and>
      isIn (sq_sort q) (Some VALID_SORT) \<and>
      isIn (sq_date q) (Some VALID_DATE) \<and>
      min_value (sq_page q) (Some MIN_PAGE))"

text \<open>
  \<^verbatim>\<open>createUrl()\<close>: the validation guard, then the body that builds the URL. The
  parameter \<open>latest\<close> is \<^verbatim>\<open>new URL(urls.F95_LATEST_PHP)\<close>; the constant is declared in
  \<^verbatim>\<open>constants/url\<close>. \<^verbatim>\<open>this.date.toString()\<close> is a method call on the field: on
  \<^verbatim>\<open>null\<close> the engine throws a \<^verbatim>\<open>TypeError\<close>.
\<close>

definition toString_date :: "int option \<Rightarrow> string outcome" where
  "toString_date d =
     (case d of None \<Rightarrow> Throws (TypeError ''this.date.toString'') | Some n \<Rightarrow> Returns (show_int n))"

definition createUrl_body :: "url \<Rightarrow> SearchQuery \<Rightarrow> url outcome" where
  "createUrl_body latest q =
     (let u1 = params_set ''cmd'' ''list'' latest;
          u2 = params_set ''cat'' (sq_category q) u1;
          u3 = fold (\<lambda>tag u. params_append ''tags[]'' (show_int tag) u) (sq_tags q) u2;
          u4 = fold (\<lambda>p u. params_append ''prefixes[]'' (show_int p) u) (sq_prefixes q) u3;
          u5 = params_set ''sort'' (sq_sort q) u4
      in case toString_date (sq_date q) of
           Throws e \<Rightarrow> Throws e
         | Returns d \<Rightarrow> Returns (params_set ''page'' (show_int (sq_page q)) (params_set ''date'' d u5)))"

definition createUrl :: "url \<Rightarrow> SearchQuery \<Rightarrow> url outcome" where
  "createUrl latest q =
     (if \<not> SearchQuery_validate q then Throws (Error ''Invalid query'')
      else createUrl_body latest q)"

subsection \<open>\<^verbatim>\<open>HandiworkSearchQuery\<close>: the unified query and its casts\<close>

text \<open>
  The casts of the class are type assertions (\<^verbatim>\<open>this as IQuery as LatestSearchQuery\<close>):
  they return the same object, on which further fields are then written. One record
  therefore holds the fields the class declares and the two fields the casts add
  (\<^verbatim>\<open>date\<close>, \<^verbatim>\<open>onlyTitles\<close>); \<open>None\<close> is a field that was never written
  (\<^verbatim>\<open>undefined\<close>). Dates are milliseconds since the epoch, \<^verbatim>\<open>null\<close> is \<open>None\<close>.
\<close>

record HandiworkSearchQuery =
  hq_keywords :: string
  hq_newerThan :: "int option"
  hq_olderThan :: "int option"
  hq_includedTags :: "string list"
  hq_excludedTags :: "string list"
  hq_includedPrefixes :: "string list option"
  hq_category :: "string option"
  hq_order :: string
  hq_page :: int
  hq_itype :: string
  hq_date :: "int option option"
  hq_onlyTitles :: "bool option"

definition HandiworkSearchQuery_new :: HandiworkSearchQuery where
  "HandiworkSearchQuery_new =
     \<lparr>hq_keywords = [], hq_newerThan = None, hq_olderThan = None, hq_includedTags = [],
       hq_excludedTags = [], hq_includedPrefixes = None, hq_category = None,
       hq_order = ''relevance'', hq_page = 1, hq_itype = ''HandiworkSearchQuery'',
       hq_date = None, hq_onlyTitles = None\<rparr>"

text \<open>The three order vocabularies.\<close>

definition THandiworkOrder :: "string list" where
  "THandiworkOrder = [''date'', ''likes'', ''relevance'', ''replies'', ''title'', ''views'']"

text \<open>
  Modelled from the spec: \<^verbatim>\<open>TLatestOrder\<close> and \<^verbatim>\<open>TThreadOrder\<close> are declared in
  \<^verbatim>\<open>latest-search-query.ts\<close> and \<^verbatim>\<open>thread-search-query.ts\<close>, which are not among the
  sources; the spec gives them as \<open>{date, likes, views, title, rating}\<close> (the same
  list as \<open>VALID_SORT\<close>) and \<open>{date, relevance, replies, views, title}\<close>.
\<close>

definition TLatestOrder :: "string list" where
  "TLatestOrder = [''date'', ''likes'', ''views'', ''title'', ''rating'']"

definition TThreadOrder :: "string list" where
  "TThreadOrder = [''date'', ''relevance'', ''replies'', ''views'', ''title'']"

text \<open>
  \<^verbatim>\<open>selectSearchType()\<close>: \<^verbatim>\<open>this.keywords\<close> in a condition is true exactly for a
  string that is not empty.
\<close>

definition MAX_TAGS_LATEST_SEARCH :: nat where "MAX_TAGS_LATEST_SEARCH = 5"

definition selectSearchType :: "HandiworkSearchQuery \<Rightarrow> string" where
  "selectSearchType this =
     (if hq_keywords this \<noteq> [] \<or> length (hq_includedTags this) > MAX_TAGS_LATEST_SEARCH
      then ''thread'' else ''latest'')"

text \<open>
  \<^verbatim>\<open>validate()\<close>: the class decorates only \<^verbatim>\<open>page\<close>, with \<^verbatim>\<open>IsInt\<close> and
  \<^verbatim>\<open>Min(HandiworkSearchQuery.MIN_PAGE)\<close>; the constant is a static field of the class,
  so this decorator does receive 1. \<^verbatim>\<open>validateSync(this)\<close> returns one
  \<^verbatim>\<open>ValidationError\<close> object per property that violates a constraint.
\<close>

record ValidationError =
  ve_property :: string
  ve_value :: int
  ve_constraints :: "string list"

definition HandiworkSearchQuery_MIN_PAGE :: "int option" where
  "HandiworkSearchQuery_MIN_PAGE = Some 1"

definition validateSync :: "HandiworkSearchQuery \<Rightarrow> ValidationError list" where
  "validateSync this =
     (if min_value (hq_page this) HandiworkSearchQuery_MIN_PAGE then []
      else [\<lparr>ve_property = ''page'', ve_value = hq_page this, ve_constraints = [''min'']\<rparr>])"

definition HandiworkSearchQuery_validate :: "HandiworkSearchQuery \<Rightarrow> bool" where
  "HandiworkSearchQuery_validate this = (length (validateSync this) = 0)"

text \<open>\<^verbatim>\<open>Array.prototype.join\<close> on strings.\<close>

fun join :: "string \<Rightarrow> string list \<Rightarrow> string" where
  "join sep [] = []"
| "join sep [x] = x"
| "join sep (x # y # ys) = x @ sep @ join sep (y # ys)"

text \<open>
  \<^verbatim>\<open>castToLatest()\<close> and \<^verbatim>\<open>castToThread()\<close>. \<^verbatim>\<open>findNearestDate\<close> is a method of
  \<^verbatim>\<open>LatestSearchQuery\<close>, which is not among the sources: it is a parameter. It is
  called only for a query with \<^verbatim>\<open>newerThan\<close> set; the object it is called on is
  still the unified query, which has no such method, so nothing below relies on
  that case, and \<open>cast\<close> reaches neither of the two functions.
\<close>

definition castToLatest :: "(int \<Rightarrow> int option) \<Rightarrow> HandiworkSearchQuery \<Rightarrow> HandiworkSearchQuery" where
  "castToLatest findNearestDate this =
     (let orderFilter = hq_order this;
          query = this\<lparr>hq_itype := ''LatestSearchQuery''\<rparr>;
          orderFilter = (if orderFilter = ''relevance'' then ''rating''
                         else if orderFilter = ''replies'' then ''views'' else orderFilter);
          query = query\<lparr>hq_order := orderFilter\<rparr>
      in case hq_newerThan this of
           Some d \<Rightarrow> query\<lparr>hq_date := Some (findNearestDate d)\<rparr>
         | None \<Rightarrow> query)"

definition castToThread :: "HandiworkSearchQuery \<Rightarrow> HandiworkSearchQuery" where
  "castToThread this =
     (let orderFilter = hq_order this;
          query = this\<lparr>hq_excludedTags := hq_excludedTags this,
                       hq_newerThan := hq_newerThan this,
                       hq_olderThan := hq_olderThan this,
                       hq_onlyTitles := Some True,
                       hq_keywords := hq_keywords this\<rparr>;
          orderFilter = (if orderFilter = ''likes'' \<or> orderFilter = ''title''
                         then ''relevance'' else orderFilter)
      in query\<lparr>hq_order := orderFilter\<rparr>)"

text \<open>
  \<^verbatim>\<open>cast<T>()\<close>. The type argument \<open>T\<close> exists only for the type checker; it is the
  first parameter here and the body cannot read it. What the body reads is the
  \<^verbatim>\<open>itype\<close> of the fresh object literal \<^verbatim>\<open>{} as IQuery as T\<close>, which has no such
  property.
\<close>

definition empty_object_itype :: "string option" where
  "empty_object_itype = None"

definition cast :: "string \<Rightarrow> (int \<Rightarrow> int option) \<Rightarrow> HandiworkSearchQuery \<Rightarrow> HandiworkSearchQuery" where
  "cast T findNearestDate this =
     (let query_itype = empty_object_itype in
      if query_itype = Some ''LatestSearchQuery'' then castToLatest findNearestDate this
      else if query_itype = Some ''ThreadSearchQuery'' then castToThread this
      else this)"

text \<open>
  \<^verbatim>\<open>createURL()\<close>. The message of the error joins the \<^verbatim>\<open>ValidationError\<close> objects,
  each through its \<^verbatim>\<open>toString()\<close>, a method of \<^verbatim>\<open>class-validator\<close>: it is the
  parameter \<open>toString\<close>. The last line calls \<^verbatim>\<open>query.createURL()\<close> on the object that
  \<^verbatim>\<open>cast\<close> returned. A type assertion does not change the class of an object, so
  the method that runs is this one again. A call whose recursion does not end is
  \<open>None\<close>: it returns nothing and throws nothing of the method's own (the engine
  stops it with a \<^verbatim>\<open>RangeError\<close> when the stack is full).
\<close>

partial_function (option) createURL ::
  "(ValidationError \<Rightarrow> string) \<Rightarrow> (int \<Rightarrow> int option) \<Rightarrow> HandiworkSearchQuery \<Rightarrow> url outcome option"
  where
  "createURL toString findNearestDate this =
     (if \<not> HandiworkSearchQuery_validate this
      then Some (Throws (Error (''Invalid query: '' @ join [CHR 0x0A] (map toString (validateSync this)))))
      else if selectSearchType this = ''latest''
           then createURL toString findNearestDate (cast ''LatestSearchQuery'' findNearestDate this)
           else createURL toString findNearestDate (cast ''ThreadSearchQuery'' findNearestDate this))"

section \<open>The collaborators: network, URL resolution, page scraping\<close>

text \<open>
  The response object of \<^verbatim>\<open>axios.get\<close>, which \<^verbatim>\<open>fetchGETResponse\<close> wraps in
  \<^verbatim>\<open>success(response)\<close>: its properties are \<^verbatim>\<open>data\<close>, \<^verbatim>\<open>status\<close>, \<^verbatim>\<open>statusText\<close>,
  \<^verbatim>\<open>headers\<close>, \<^verbatim>\<open>config\<close> and \<^verbatim>\<open>request\<close>. The content type of the reply is an
  entry of \<^verbatim>\<open>headers\<close>. \<open>property r name\<close> is \<^verbatim>\<open>r[name]\<close>: the value of a property the
  object has, \<^verbatim>\<open>undefined\<close> for any other name.
\<close>

datatype jsvalue = Undefined | Str string | Num int | Object

record AxiosResponse =
  data :: string
  status :: int
  statusText :: string
  headers :: "(string \<times> string) list"

definition property :: "AxiosResponse \<Rightarrow> string \<Rightarrow> jsvalue" where
  "property r name =
     (if name = ''data'' then Str (data r)
      else if name = ''status'' then Num (status r)
      else if name = ''statusText'' then Str (statusText r)
      else if name = ''headers'' \<or> name = ''config'' \<or> name = ''request'' then Object
      else Undefined)"

text \<open>
  \<^verbatim>\<open>fetchHTML\<close>, applied to what \<^verbatim>\<open>fetchGETResponse(url)\<close> gave. It is an \<^verbatim>\<open>async\<close>
  function: it returns a \<open>Result\<close>, or its promise is rejected.
  \<^verbatim>\<open>response.value["content-type"].includes("text/html")\<close> calls a string method on
  the property; on a value that is not a string the engine throws a \<^verbatim>\<open>TypeError\<close>.
\<close>

definition fetchHTML :: "(error, AxiosResponse) result \<Rightarrow> (error, string) result outcome" where
  "fetchHTML response =
     (case response of
        Success r \<Rightarrow>
          (case property r ''content-type'' of
             Str ct \<Rightarrow>
               (let isHTML = includes_str ct ''text/html'';
                    unexpectedResponseError =
                      UnexpectedResponseContentType (''Expected HTML but received '' @ ct)
                in Returns (if isHTML then Success (data r) else Failure unexpectedResponseError))
           | Undefined \<Rightarrow> Throws (TypeError ''response.value[content-type].includes'')
           | Num n \<Rightarrow> Throws (TypeError ''response.value[content-type].includes'')
           | Object \<Rightarrow> Throws (TypeError ''response.value[content-type].includes''))
      | Failure e \<Rightarrow> Returns (Failure e))"

text \<open>A post, with the fields of the class \<^verbatim>\<open>Post\<close> but the parsed body tree.\<close>

record Post =
  post_id :: int
  post_number :: int
  post_published :: int
  post_lastEdit :: int
  post_owner :: int
  post_bookmarked :: bool
  post_message :: string

text \<open>The rating summary \<^verbatim>\<open>TRating\<close>, its average kept as the text that was scraped.\<close>

record TRating =
  rating_average :: string
  rating_best :: int
  rating_count :: int

text \<open>
  What \<^verbatim>\<open>Thread.fetch\<close> reads off the first page with its selectors, in the order
  of the assignments: title, creation date, tags, prefixes, owner, the rating that
  \<^verbatim>\<open>parseRating\<close> computes from the JSON-LD block (it throws when the block has no
  \<^verbatim>\<open>aggregateRating\<close>), and \<^verbatim>\<open>parseInt\<close> of the last-page label (\<open>None\<close> is \<^verbatim>\<open>NaN\<close>).
\<close>

record ThreadPage =
  page_title :: string
  page_creation :: int
  page_tags :: "string list"
  page_prefixes :: "string list"
  page_owner :: int
  page_rating :: "TRating outcome"
  page_lastPage :: "int option"

text \<open>
  Everything the pipeline asks of its surroundings. The constants of
  \<^verbatim>\<open>constants/url\<close>, the session token, \<^verbatim>\<open>new URL(rel, base).toString()\<close> (it throws
  on an input that does not parse), the two requests of \<^verbatim>\<open>network-helper\<close> as
  functions of what is requested, and the cheerio selections: the posts of a page
  (\<^verbatim>\<open>parsePostsInPage\<close>, a promise that can be rejected), the first page of a thread,
  and for a result page the \<^verbatim>\<open>href\<close> of the title link of each result body
  (\<open>None\<close> where \<^verbatim>\<open>attr("href")\<close> is \<^verbatim>\<open>undefined\<close>).
\<close>

record env =
  F95_BASE_URL :: string
  F95_POSTS_NUMBER :: string
  session_token :: string
  newURL :: "string \<Rightarrow> string \<Rightarrow> string outcome"
  fetchGETResponse :: "string \<Rightarrow> (error, AxiosResponse) result"
  fetchPOSTResponse :: "string \<Rightarrow> (string \<times> string) list \<Rightarrow> (error, AxiosResponse) result"
  parsePostsInPage :: "string \<Rightarrow> Post list outcome"
  scrapeThreadPage :: "string \<Rightarrow> ThreadPage"
  resultTitleLinks :: "string \<Rightarrow> string option list"

section \<open>Search execution (\<^verbatim>\<open>fetchResultURLs\<close>)\<close>

text \<open>
  \<^verbatim>\<open>results.slice(0, limit)\<close>: an end that is negative counts from the end of the
  selection.
\<close>

definition slice0 :: "'a list \<Rightarrow> int \<Rightarrow> 'a list" where
  "slice0 xs limit =
     (let n = int (length xs);
          e = (if limit < 0 then max (n + limit) 0 else min limit n)
      in take (nat e) xs)"

text \<open>\<^verbatim>\<open>extractLinkFromResult\<close>: \<^verbatim>\<open>.attr("href").trim()\<close>, then the URL against the base.\<close>

definition extractLinkFromResult :: "env \<Rightarrow> string option \<Rightarrow> string outcome" where
  "extractLinkFromResult E href =
     (case href of
        None \<Rightarrow> Throws (TypeError ''attr(href).trim'')
      | Some h \<Rightarrow> newURL E (trim h) (F95_BASE_URL E))"

text \<open>\<^verbatim>\<open>.map(...)\<close> over the selection, in order; a callback that throws ends it.\<close>

fun map_results :: "env \<Rightarrow> string option list \<Rightarrow> string list outcome" where
  "map_results E [] = Returns []"
| "map_results E (el # els) =
     (case extractLinkFromResult E el of
        Throws e \<Rightarrow> Throws e
      | Returns u \<Rightarrow>
          (case map_results E els of
             Throws e \<Rightarrow> Throws e
           | Returns us \<Rightarrow> Returns (u # us)))"

definition fetchResultURLs :: "env \<Rightarrow> string \<Rightarrow> int \<Rightarrow> string list outcome" where
  "fetchResultURLs E url limit =
     (case fetchHTML (fetchGETResponse E url) of
        Throws e \<Rightarrow> Throws e
      | Returns (Success html) \<Rightarrow>
          (let results = resultTitleLinks E html
           in map_results E (slice0 results limit))
      | Returns (Failure e) \<Rightarrow> Throws e)"

text \<open>The default of the parameter: \<^verbatim>\<open>limit: number = 30\<close>.\<close>

definition fetchResultURLs_default :: "env \<Rightarrow> string \<Rightarrow> string list outcome" where
  "fetchResultURLs_default E url = fetchResultURLs E url 30"

section \<open>Thread and post retrieval (\<^verbatim>\<open>thread.ts\<close>)\<close>

text \<open>
  The fields of the class \<^verbatim>\<open>Thread\<close>. The constructor writes the ID only; every
  other field is \<^verbatim>\<open>undefined\<close> (\<open>None\<close>) until \<^verbatim>\<open>fetch\<close> assigns it.
\<close>

record Thread =
  thread_id :: int
  thread_url :: "string option"
  thread_title :: "string option"
  thread_tags :: "string list option"
  thread_prefixes :: "string list option"
  thread_posts :: "Post list option"
  thread_rating :: "TRating option"
  thread_owner :: "int option"
  thread_creation :: "int option"


subsection \<open>\<^verbatim>\<open>setMaximumPostsForPage\<close>\<close>

text \<open>The object \<^verbatim>\<open>params\<close> that is sent, then the request and the inspection of its result.\<close>

definition dpp_params :: "env \<Rightarrow> int \<Rightarrow> int \<Rightarrow> (string \<times> string) list" where
  "dpp_params E this_id n =
     [(''_xfResponseType'', ''json''),
      (''_xfRequestUri'',
         ''/account/dpp-update?content_type=thread&content_id='' @ show_int this_id),
      (''_xfToken'', session_token E),
      (''_xfWithData'', ''1''),
      (''content_id'', show_int this_id),
      (''content_type'', ''thread''),
      (''dpp_custom_config[posts]'', show_int n)]"

definition setMaximumPostsForPage :: "env \<Rightarrow> int \<Rightarrow> int \<Rightarrow> unit outcome" where
  "setMaximumPostsForPage E this_id n =
     (let params = dpp_params E this_id n;
          response = fetchPOSTResponse E (F95_POSTS_NUMBER E) params
      in case response of Failure e \<Rightarrow> Throws e | Success r \<Rightarrow> Returns ())"

subsection \<open>The sort of \<^verbatim>\<open>fetchPosts\<close>\<close>

text \<open>The comparator \<^verbatim>\<open>(a, b) => (a.id > b.id) ? 1 : ((b.id > a.id) ? -1 : 0)\<close>.\<close>

definition comparePosts :: "Post \<Rightarrow> Post \<Rightarrow> int" where
  "comparePosts a b = (if post_id a > post_id b then 1 else if post_id b > post_id a then - 1 else 0)"

text \<open>
  \<^verbatim>\<open>Array.prototype.sort(compare)\<close>. The language fixes its result for a comparator
  that is a consistent ordering: the stable arrangement, in which \<open>a\<close> stays before
  \<open>b\<close> unless \<open>compare a b > 0\<close>. It is computed here by insertion from the right.
\<close>

fun insert_by :: "('a \<Rightarrow> 'a \<Rightarrow> int) \<Rightarrow> 'a \<Rightarrow> 'a list \<Rightarrow> 'a list" where
  "insert_by cmp x [] = [x]"
| "insert_by cmp x (y # ys) = (if cmp x y \<le> 0 then x # y # ys else y # insert_by cmp x ys)"

definition sort_by :: "('a \<Rightarrow> 'a \<Rightarrow> int) \<Rightarrow> 'a list \<Rightarrow> 'a list" where
  "sort_by cmp xs = foldr (insert_by cmp) xs []"

subsection \<open>\<^verbatim>\<open>Promise.all\<close>\<close>

text \<open>
  \<^verbatim>\<open>Promise.all(ps)\<close> keeps one slot per promise. \<open>ord\<close> is the order in which the
  promises settle, by request index from 0; promise \<open>i\<close> settles as \<open>ps ! i\<close> says.
  A promise that is fulfilled writes its value into slot \<open>i\<close>; the first promise
  that is rejected rejects the whole with its reason. The awaiting code resumes
  with the slots when all are filled, and never while one is empty (\<open>None\<close>).
\<close>

fun settle_all :: "'a outcome list \<Rightarrow> nat list \<Rightarrow> 'a option list \<Rightarrow> 'a list outcome option" where
  "settle_all ps [] slots = map_option Returns (those slots)"
| "settle_all ps (i # ord) slots =
     (if i < length ps
      then (case ps ! i of
              Throws e \<Rightarrow> Some (Throws e)
            | Returns v \<Rightarrow> settle_all ps ord (slots[i := Some v]))
      else settle_all ps ord slots)"

definition promise_all :: "nat list \<Rightarrow> 'a outcome list \<Rightarrow> 'a list outcome option" where
  "promise_all ord ps = settle_all ps ord (replicate (length ps) None)"

subsection \<open>\<^verbatim>\<open>fetchPosts\<close>\<close>

text \<open>The bounds of \<^verbatim>\<open>for (let i = 1; i <= pages; i++)\<close>; no \<open>i\<close> satisfies \<^verbatim>\<open>i <= NaN\<close>.\<close>

definition page_indices :: "int option \<Rightarrow> int list" where
  "page_indices pages = (case pages of None \<Rightarrow> [] | Some n \<Rightarrow> [1..n])"

text \<open>
  The first loop: for each index the URL is built and \<^verbatim>\<open>fetchHTML(url)\<close> is started,
  without waiting; the list holds how each of these promises settles.
\<close>

fun start_fetches :: "env \<Rightarrow> int list \<Rightarrow> (error, string) result outcome list outcome" where
  "start_fetches E [] = Returns []"
| "start_fetches E (i # is) =
     (case newURL E (''page-'' @ show_int i) (F95_BASE_URL E) of
        Throws e \<Rightarrow> Throws e
      | Returns url \<Rightarrow>
          (case start_fetches E is of
             Throws e \<Rightarrow> Throws e
           | Returns htmlPromiseList \<Rightarrow>
               Returns (fetchHTML (fetchGETResponse E url) # htmlPromiseList)))"

text \<open>The second loop, over the responses in the order of the array.\<close>

fun scrape_pages :: "env \<Rightarrow> (error, string) result list \<Rightarrow> Post list \<Rightarrow> Post list outcome" where
  "scrape_pages E [] fetchedPosts = Returns fetchedPosts"
| "scrape_pages E (response # responses) fetchedPosts =
     (case response of
        Success html \<Rightarrow>
          (case parsePostsInPage E html of
             Throws e \<Rightarrow> Throws e
           | Returns posts \<Rightarrow> scrape_pages E responses (fetchedPosts @ posts))
      | Failure e \<Rightarrow> Throws e)"

definition fetchPosts :: "env \<Rightarrow> nat list \<Rightarrow> int \<Rightarrow> int option \<Rightarrow> Post list outcome option" where
  "fetchPosts E ord this_id pages =
     (case setMaximumPostsForPage E this_id 100 of
        Throws e \<Rightarrow> Some (Throws e)
      | Returns u \<Rightarrow>
          (case start_fetches E (page_indices pages) of
             Throws e \<Rightarrow> Some (Throws e)
           | Returns htmlPromiseList \<Rightarrow>
               (case promise_all ord htmlPromiseList of
                  None \<Rightarrow> None
                | Some (Throws e) \<Rightarrow> Some (Throws e)
                | Some (Returns responses) \<Rightarrow>
                    (case scrape_pages E responses [] of
                       Throws e \<Rightarrow> Some (Throws e)
                     | Returns fetchedPosts \<Rightarrow>
                         Some (Returns (sort_by comparePosts fetchedPosts))))))"

subsection \<open>\<^verbatim>\<open>Thread.fetch\<close>\<close>

text \<open>
  The method mutates the thread and returns nothing: the result is how the call
  ended, with the thread as the call left it.
\<close>

definition fetch :: "env \<Rightarrow> nat list \<Rightarrow> Thread \<Rightarrow> (unit outcome \<times> Thread) option" where
  "fetch E ord this =
     (case newURL E (show_int (thread_id this)) (F95_BASE_URL E) of
        Throws e \<Rightarrow> Some (Throws e, this)
      | Returns u \<Rightarrow>
          (let this1 = this\<lparr>thread_url := Some u\<rparr> in
           case fetchHTML (fetchGETResponse E u) of
             Throws e \<Rightarrow> Some (Throws e, this1)
           | Returns (Failure e) \<Rightarrow> Some (Throws e, this1)
           | Returns (Success html) \<Rightarrow>
               (let pg = scrapeThreadPage E html;
                    this2 = this1\<lparr>thread_title := Some (page_title pg),
                                  thread_creation := Some (page_creation pg),
                                  thread_tags := Some (page_tags pg),
                                  thread_prefixes := Some (page_prefixes pg),
                                  thread_owner := Some (page_owner pg)\<rparr>
                in case page_rating pg of
                     Throws e \<Rightarrow> Some (Throws e, this2)
                   | Returns r \<Rightarrow>
                       (let this3 = this2\<lparr>thread_rating := Some r\<rparr> in
                        case fetchPosts E ord (thread_id this) (page_lastPage pg) of
                          None \<Rightarrow> None
                        | Some (Throws e) \<Rightarrow> Some (Throws e, this3)
                        | Some (Returns posts) \<Rightarrow>
                            Some (Returns (), this3\<lparr>thread_posts := Some posts\<rparr>)))))"

section \<open>Concrete surroundings for the examples\<close>

text \<open>
  A small platform on which the theorems below are run: every GET is answered with
  an HTML page whose body is the requested URL, the pagination request is
  accepted, the thread has two pages, page 1 holds the posts 12 and 11 (in that
  order), page 2 holds post 5, and a result page lists three threads. Single
  fields are changed where an example needs a failure.
\<close>

definition html_response :: "string \<Rightarrow> (error, AxiosResponse) result" where
  "html_response body =
     Success \<lparr>data = body, status = 200, statusText = ''OK'',
              headers = [(''content-type'', ''text/html; charset=utf-8'')]\<rparr>"

definition example_post :: "int \<Rightarrow> Post" where
  "example_post n =
     \<lparr>post_id = n, post_number = 1, post_published = 0, post_lastEdit = 0, post_owner = 1,
       post_bookmarked = False, post_message = ''text''\<rparr>"

definition example_page :: ThreadPage where
  "example_page =
     \<lparr>page_title = ''A thread'', page_creation = 0, page_tags = [''3d''], page_prefixes = [],
       page_owner = 1,
       page_rating = Returns \<lparr>rating_average = ''4.5'', rating_best = 5, rating_count = 10\<rparr>,
       page_lastPage = Some 2\<rparr>"

definition example_env :: env where
  "example_env =
     \<lparr>F95_BASE_URL = ''f95/'',
       F95_POSTS_NUMBER = ''f95/dpp-update'',
       session_token = ''token'',
       newURL = (\<lambda>rel base. Returns (base @ rel)),
       fetchGETResponse = html_response,
       fetchPOSTResponse =
         (\<lambda>u ps. Success \<lparr>data = ''{}'', status = 200, statusText = ''OK'',
                          headers = [(''content-type'', ''application/json'')]\<rparr>),
       parsePostsInPage =
         (\<lambda>html. if html = ''f95/page-1'' then Returns [example_post 12, example_post 11]
                 else if html = ''f95/page-2'' then Returns [example_post 5]
                 else Returns []),
       scrapeThreadPage = (\<lambda>html. example_page),
       resultTitleLinks = (\<lambda>html. [Some '' t/a.1/ '', Some ''t/b.2/'', Some ''t/c.3/''])\<rparr>"

text \<open>Page 1 cannot be fetched; no page can be fetched.\<close>

definition page1_down :: "string \<Rightarrow> (error, AxiosResponse) result" where
  "page1_down u = (if u = ''f95/page-1'' then Failure (GenericAxiosError ''timeout'') else html_response u)"

definition all_down :: "string \<Rightarrow> (error, AxiosResponse) result" where
  "all_down u = Failure (GenericAxiosError (''no route to '' @ u))"

section \<open>Facts about the building blocks\<close>

subsection \<open>Casting\<close>

lemma cast_returns_this: "cast T findNearestDate this = this"
  by (simp add: cast_def empty_object_itype_def)

lemma createURL_returns_only_invalid:
  assumes "createURL toString findNearestDate this = Some r"
  shows "\<not> HandiworkSearchQuery_validate this"
  by (rule createURL.raw_induct
        [where P = "\<lambda>s f t r. \<not> HandiworkSearchQuery_validate t", OF _ assms])
     (auto simp: cast_returns_this split: if_splits)

lemma createURL_valid_never_returns:
  "HandiworkSearchQuery_validate this \<Longrightarrow> createURL toString findNearestDate this = None"
  using createURL_returns_only_invalid by (cases "createURL toString findNearestDate this") auto

lemma createURL_invalid_throws:
  "\<not> HandiworkSearchQuery_validate this \<Longrightarrow>
   createURL toString findNearestDate this =
     Some (Throws (Error (''Invalid query: '' @ join [CHR 0x0A] (map toString (validateSync this)))))"
  by (subst createURL.simps) simp

text \<open>The two private casts do what \<open>cast\<close> never reaches.\<close>

lemma castToLatest_order_in_vocabulary:
  "hq_newerThan this = None \<Longrightarrow> hq_order this \<in> set THandiworkOrder \<Longrightarrow>
   hq_order (castToLatest findNearestDate this) \<in> set TLatestOrder"
  by (auto simp: castToLatest_def THandiworkOrder_def TLatestOrder_def Let_def)

lemma castToThread_order_in_vocabulary:
  "hq_order this \<in> set THandiworkOrder \<Longrightarrow>
   hq_order (castToThread this) \<in> set TThreadOrder"
  by (auto simp: castToThread_def THandiworkOrder_def TThreadOrder_def Let_def)

lemma castToThread_fields:
  "hq_excludedTags (castToThread this) = hq_excludedTags this \<and>
   hq_newerThan (castToThread this) = hq_newerThan this \<and>
   hq_olderThan (castToThread this) = hq_olderThan this \<and>
   hq_onlyTitles (castToThread this) = Some True \<and>
   hq_keywords (castToThread this) = hq_keywords this"
  by (simp add: castToThread_def Let_def)

subsection \<open>The latest-listing query never validates\<close>

lemma SearchQuery_never_valid: "\<not> SearchQuery_validate q"
  by (simp add: SearchQuery_validate_def arrayMaxSize_def prototype_MAX_TAGS_def)

lemma createUrl_always_invalid: "createUrl latest q = Throws (Error ''Invalid query'')"
  by (simp add: createUrl_def SearchQuery_never_valid)

lemma createUrl_body_null_date:
  "sq_date q = None \<Longrightarrow> createUrl_body latest q = Throws (TypeError ''this.date.toString'')"
  by (simp add: createUrl_body_def toString_date_def Let_def)

subsection \<open>\<^verbatim>\<open>fetchHTML\<close> has no success\<close>

lemma property_content_type: "property r ''content-type'' = Undefined"
  by (simp add: property_def)

lemma fetchHTML_Success:
  "fetchHTML (Success r) = Throws (TypeError ''response.value[content-type].includes'')"
  by (simp add: fetchHTML_def property_content_type)

lemma fetchHTML_Failure: "fetchHTML (Failure e) = Returns (Failure e)"
  by (simp add: fetchHTML_def)

lemma fetchHTML_never_Success: "fetchHTML response \<noteq> Returns (Success html)"
  by (cases response) (simp_all add: fetchHTML_Success fetchHTML_Failure)

lemma fetchResultURLs_never_returns: "isThrown (fetchResultURLs E url limit)"
  by (cases "fetchGETResponse E url")
     (simp_all add: fetchResultURLs_def fetchHTML_Success fetchHTML_Failure)

lemma fetch_always_throws:
  "\<exists>e this'. fetch E ord this = Some (Throws e, this') \<and> thread_posts this' = thread_posts this"
proof (cases "newURL E (show_int (thread_id this)) (F95_BASE_URL E)")
  case (Throws e)
  then show ?thesis
    by (simp add: fetch_def)
next
  case (Returns u)
  then show ?thesis
    by (cases "fetchGETResponse E u")
       (simp_all add: fetch_def fetchHTML_Success fetchHTML_Failure)
qed

subsection \<open>\<^verbatim>\<open>Promise.all\<close> with no rejection delivers by request index\<close>




subsection \<open>The comparator sorts by post ID\<close>

lemma insert_by_comparePosts: "insert_by comparePosts x ys = insort_key post_id x ys"
  by (induction ys) (auto simp: comparePosts_def)

lemma sort_by_comparePosts: "sort_by comparePosts xs = sort_key post_id xs"
  by (induction xs) (auto simp: sort_by_def insert_by_comparePosts sort_key_def)

lemma sort_by_comparePosts_sorted:
  "sorted (map post_id (sort_by comparePosts xs)) \<and> mset (sort_by comparePosts xs) = mset xs"
  by (simp add: sort_by_comparePosts)

subsection \<open>\<^verbatim>\<open>fetchPosts\<close>, case by case\<close>





subsection \<open>\<^verbatim>\<open>fetchPosts\<close> returns posts for no thread that has a page\<close>

lemma those_eq_Some: "those xs = Some ys \<Longrightarrow> xs = map Some ys"
  by (induction xs arbitrary: ys) (auto split: option.splits)

lemma start_fetches_shape:
  "start_fetches E idxs = Returns ps \<Longrightarrow>
   length ps = length idxs \<and> (\<forall>p\<in>set ps. \<forall>html. p \<noteq> Returns (Success html))"
proof (induction idxs arbitrary: ps)
  case Nil
  then show ?case
    by simp
next
  case (Cons i idxs)
  from Cons.prems obtain url rest where
    rest: "start_fetches E idxs = Returns rest"
    and ps: "ps = fetchHTML (fetchGETResponse E url) # rest"
    by (auto split: outcome.splits)
  from Cons.IH[OF rest] ps show ?case
    by (auto simp: fetchHTML_never_Success)
qed

lemma settle_all_Returns:
  "settle_all ps ord slots = Some (Returns rs) \<Longrightarrow> length slots = length ps \<Longrightarrow>
   \<forall>i<length ps. \<forall>v. slots ! i = Some v \<longrightarrow> ps ! i = Returns v \<Longrightarrow>
   length rs = length ps \<and> (\<forall>i<length ps. ps ! i = Returns (rs ! i))"
proof (induction ord arbitrary: slots)
  case Nil
  then have "those slots = Some rs"
    by auto
  then have "slots = map Some rs"
    by (rule those_eq_Some)
  with Nil.prems(2,3) show ?case
    by auto
next
  case (Cons j ord)
  show ?case
  proof (cases "j < length ps")
    case False
    with Cons.prems have "settle_all ps ord slots = Some (Returns rs)"
      by simp
    from Cons.IH[OF this Cons.prems(2,3)] show ?thesis .
  next
    case True
    with Cons.prems(1) obtain v where v: "ps ! j = Returns v"
      and run: "settle_all ps ord (slots[j := Some v]) = Some (Returns rs)"
      by (cases "ps ! j") auto
    have len: "length (slots[j := Some v]) = length ps"
      using Cons.prems(2) by simp
    have inv: "\<forall>i<length ps. \<forall>w. slots[j := Some v] ! i = Some w \<longrightarrow> ps ! i = Returns w"
    proof (intro allI impI)
      fix i w
      assume i: "i < length ps" and w: "slots[j := Some v] ! i = Some w"
      show "ps ! i = Returns w"
      proof (cases "i = j")
        case True
        with i w v Cons.prems(2) show ?thesis
          by simp
      next
        case False
        with w have "slots ! i = Some w"
          by simp
        with i Cons.prems(3) show ?thesis
          by blast
      qed
    qed
    from Cons.IH[OF run len inv] show ?thesis .
  qed
qed

lemma promise_all_Returns:
  "promise_all ord ps = Some (Returns rs) \<Longrightarrow>
   length rs = length ps \<and> (\<forall>i<length ps. ps ! i = Returns (rs ! i))"
  unfolding promise_all_def by (erule settle_all_Returns) simp_all

lemma scrape_pages_Returns:
  "scrape_pages E rs acc = Returns posts \<Longrightarrow> \<forall>r\<in>set rs. \<exists>html. r = Success html"
  by (induction rs arbitrary: acc) (auto split: result.splits outcome.splits)

lemma fetchPosts_returns_only_without_pages:
  assumes "fetchPosts E ord tid pages = Some (Returns posts)"
  shows "page_indices pages = [] \<and> posts = []"
proof -
  from assms obtain ps rs fetched where
    ps: "start_fetches E (page_indices pages) = Returns ps"
    and rs: "promise_all ord ps = Some (Returns rs)"
    and sc: "scrape_pages E rs [] = Returns fetched"
    and posts: "posts = sort_by comparePosts fetched"
    by (auto simp: fetchPosts_def split: outcome.splits option.splits)
  from start_fetches_shape[OF ps] have len: "length ps = length (page_indices pages)"
    and none: "\<forall>p\<in>set ps. \<forall>html. p \<noteq> Returns (Success html)"
    by auto
  from promise_all_Returns[OF rs] have lrs: "length rs = length ps"
    and each: "\<forall>i<length ps. ps ! i = Returns (rs ! i)"
    by auto
  have "rs = []"
  proof (rule ccontr)
    assume "rs \<noteq> []"
    then have "0 < length rs"
      by simp
    with lrs have pos: "0 < length ps"
      by simp
    then have "rs ! 0 \<in> set rs"
      using lrs by simp
    with scrape_pages_Returns[OF sc] obtain html where "rs ! 0 = Success html"
      by blast
    with each pos have "ps ! 0 = Returns (Success html)"
      by simp
    moreover from pos have "ps ! 0 \<in> set ps"
      by simp
    ultimately show False
      using none by blast
  qed
  with lrs len sc posts show ?thesis
    by (simp add: sort_by_def)
qed

section \<open>The query resolver\<close>

text \<open>
  Claim C4. For every \<open>HandiworkSearchQuery\<close>: with keywords that are not empty,
  \<open>selectSearchType\<close> answers the thread backend; with empty keywords and at most
  five included tags it answers the latest backend; with empty keywords and more
  than five included tags it answers the thread backend.
\<close>

theorem selectSearchType_routes:
  "(hq_keywords q \<noteq> [] \<longrightarrow> selectSearchType q = ''thread'') \<and>
   (hq_keywords q = [] \<and> length (hq_includedTags q) \<le> 5 \<longrightarrow> selectSearchType q = ''latest'') \<and>
   (hq_keywords q = [] \<and> length (hq_includedTags q) > 5 \<longrightarrow> selectSearchType q = ''thread'')"
  by (simp add: selectSearchType_def MAX_TAGS_LATEST_SEARCH_def)

theorem selectSearchType_routes_witness:
  "selectSearchType (HandiworkSearchQuery_new\<lparr>hq_keywords := ''elf''\<rparr>) = ''thread'' \<and>
   selectSearchType (HandiworkSearchQuery_new\<lparr>hq_includedTags := [''a'', ''b'', ''c'', ''d'', ''e'']\<rparr>)
     = ''latest'' \<and>
   selectSearchType
     (HandiworkSearchQuery_new\<lparr>hq_includedTags := [''a'', ''b'', ''c'', ''d'', ''e'', ''f'']\<rparr>)
     = ''thread''"
proof -
  let ?k = "HandiworkSearchQuery_new\<lparr>hq_keywords := ''elf''\<rparr>"
  let ?five = "HandiworkSearchQuery_new\<lparr>hq_includedTags := [''a'', ''b'', ''c'', ''d'', ''e'']\<rparr>"
  let ?six = "HandiworkSearchQuery_new\<lparr>hq_includedTags := [''a'', ''b'', ''c'', ''d'', ''e'', ''f'']\<rparr>"
  have k: "hq_keywords ?k \<noteq> []"
    by (simp add: HandiworkSearchQuery_new_def)
  have five: "hq_keywords ?five = [] \<and> length (hq_includedTags ?five) \<le> 5"
    by (simp add: HandiworkSearchQuery_new_def)
  have six: "hq_keywords ?six = [] \<and> length (hq_includedTags ?six) > 5"
    by (simp add: HandiworkSearchQuery_new_def)
  from k selectSearchType_routes[of ?k] have "selectSearchType ?k = ''thread''"
    by blast
  moreover from five selectSearchType_routes[of ?five] have "selectSearchType ?five = ''latest''"
    by blast
  moreover from six selectSearchType_routes[of ?six] have "selectSearchType ?six = ''thread''"
    by blast
  ultimately show ?thesis
    by blast
qed

text \<open>
  Claim C3 (the order remap through \<open>cast\<close>), evaluated at the query a constructor
  builds: its order is \<open>relevance\<close>, a unified value that the latest backend does
  not have, and \<open>cast\<close> to the latest backend hands it over unchanged. Likewise
  \<open>likes\<close>, which the thread backend does not have, passes through \<open>cast\<close> to the
  thread backend.
\<close>

theorem cast_leaves_order_unmapped:
  "hq_order (cast ''LatestSearchQuery'' findNearestDate HandiworkSearchQuery_new) = ''relevance'' \<and>
   ''relevance'' \<in> set THandiworkOrder \<and> ''relevance'' \<notin> set TLatestOrder \<and>
   hq_order (cast ''ThreadSearchQuery'' findNearestDate (HandiworkSearchQuery_new\<lparr>hq_order := ''likes''\<rparr>))
     = ''likes'' \<and>
   ''likes'' \<in> set THandiworkOrder \<and> ''likes'' \<notin> set TThreadOrder"
  by (simp add: cast_returns_this HandiworkSearchQuery_new_def THandiworkOrder_def
      TLatestOrder_def TThreadOrder_def)

text \<open>
  Claim C8 (the cast to the thread backend), evaluated at the query a constructor
  builds: the object that \<open>cast\<close> returns is the query itself, and its
  \<open>onlyTitles\<close> field was never written, where \<open>castToThread\<close> would have
  written \<open>true\<close>.
\<close>

theorem cast_thread_leaves_onlyTitles_unset:
  "cast ''ThreadSearchQuery'' findNearestDate HandiworkSearchQuery_new = HandiworkSearchQuery_new \<and>
   hq_onlyTitles (cast ''ThreadSearchQuery'' findNearestDate HandiworkSearchQuery_new) = None \<and>
   hq_onlyTitles (castToThread HandiworkSearchQuery_new) = Some True"
  by (simp add: cast_returns_this castToThread_def HandiworkSearchQuery_new_def)

section \<open>URL generation\<close>

text \<open>
  Claim C6 (the URL of the default latest-listing query), evaluated at the query of
  the claim: category \<open>games\<close>, no tags, no prefixes, sort \<open>date\<close>, date \<open>null\<close>,
  page 1. Every documented constraint holds for it, yet \<open>validate\<close> rejects it
  and \<open>createUrl\<close> ends in the \<open>Invalid query\<close> error: no URL is returned. The
  body behind the guard would not return one either: it ends in the \<open>TypeError\<close>
  of \<^verbatim>\<open>this.date.toString()\<close>.
\<close>

theorem createUrl_null_date_throws:
  "documented_constraints
     \<lparr>sq_category = ''games'', sq_tags = [], sq_prefixes = [], sq_sort = ''date'', sq_date = None,
       sq_page = 1\<rparr> \<and>
   \<not> SearchQuery_validate
     \<lparr>sq_category = ''games'', sq_tags = [], sq_prefixes = [], sq_sort = ''date'', sq_date = None,
       sq_page = 1\<rparr> \<and>
   createUrl latest
     \<lparr>sq_category = ''games'', sq_tags = [], sq_prefixes = [], sq_sort = ''date'', sq_date = None,
       sq_page = 1\<rparr>
   = Throws (Error ''Invalid query'') \<and>
   createUrl_body latest
     \<lparr>sq_category = ''games'', sq_tags = [], sq_prefixes = [], sq_sort = ''date'', sq_date = None,
       sq_page = 1\<rparr>
   = Throws (TypeError ''this.date.toString'')"
  by (simp add: createUrl_always_invalid SearchQuery_never_valid createUrl_body_null_date
      documented_constraints_def isIn_def arrayMaxSize_def min_value_def VALID_CATEGORY_def
      VALID_SORT_def VALID_DATE_def MAX_TAGS_def MIN_PAGE_def)


section \<open>The thread pipeline\<close>

lemmas example_defs =
  example_env_def html_response_def example_post_def example_page_def page1_down_def all_down_def








section \<open>Search execution\<close>

text \<open>
  Claim C9 (a fetched result page gives at most \<open>limit\<close> resolved URLs, an empty
  page the empty list), evaluated on a result page that is answered, with three
  results and with none, at the default limit: \<open>fetchResultURLs\<close> ends in the
  \<open>TypeError\<close> of \<open>fetchHTML\<close> and returns no list.
\<close>

theorem fetched_result_page_throws:
  "fetchResultURLs example_env ''f95/search'' 30
     = Throws (TypeError ''response.value[content-type].includes'') \<and>
   fetchResultURLs (example_env\<lparr>resultTitleLinks := (\<lambda>html. [])\<rparr>) ''f95/search'' 30
     = Throws (TypeError ''response.value[content-type].includes'') \<and>
   fetchResultURLs_default example_env ''f95/search''
     = Throws (TypeError ''response.value[content-type].includes'')"
  by (simp add: example_defs fetchResultURLs_def fetchResultURLs_default_def fetchHTML_def
      property_def)

end
